theory Spec2Isabelle
  imports Complex_Main
begin

section \<open>JavaScript values\<close>

text \<open>
  A JavaScript number is an IEEE-754 double: a NaN, one of the two infinities, or a finite
  value. Finite values are kept as reals (every finite double is one); rounding and the
  sign of zero play no part in \<open>lib/ctor.js\<close>, which only compares numbers with zero and
  hands them on.
\<close>

datatype float64 = NaN | PInf | NInf | Fin real

text \<open>
  The constructor never looks inside an object, but \<open>format\<close> interpolates
  \<open>String( value )\<close> into the message, and for an object that runs the object's own
  conversion code (\<open>toString\<close>). That code belongs to the caller. It can do to an instance
  whatever a holder of the instance can, and it ends by returning a string or by throwing
  an error of its own. An object is therefore kept as what its conversion does: the numbers
  it assigns to \<open>alpha\<close> and \<open>beta\<close>, in order, and how it completes. Reads and
  assignments of other values leave the fields alone or run further conversions of the same
  kind; a conversion that never returns is left out. The objects of the tests (\<open>{}\<close>,
  \<open>[]\<close>, a function) assign nothing and return.
\<close>

datatype field = AlphaField | BetaField

datatype completion = Returns | Throws nat

text \<open>The values a caller can pass: primitives of each type, and objects.\<close>

datatype jsval =
    Number float64
  | String string
  | Boolean bool
  | Undefined
  | Null
  | Object "(field \<times> float64) list" completion

fun primitive :: "jsval \<Rightarrow> bool" where
  "primitive (Object ws c) = False"
| "primitive _ = True"

text \<open>IEEE comparison \<open>x > 0.0\<close>: false for NaN, true for \<open>+Infinity\<close>.\<close>

fun gt_zero :: "float64 \<Rightarrow> bool" where
  "gt_zero NaN = False"
| "gt_zero PInf = True"
| "gt_zero NInf = False"
| "gt_zero (Fin r) = (0 < r)"

text \<open>
  \<open>isPositive\<close> is \<open>require( '@stdlib/assert-is-positive-number' ).isPrimitive\<close>
  (\<open>lib/ctor.js\<close>, line 28), a dependency outside the repository. Its contract is
  \<open>typeof value === 'number' && value > 0.0\<close>: a primitive number that compares greater
  than zero. No finiteness test is part of it, and the \<open>typeof\<close> test comes first, so an
  object is refused without being converted.
\<close>

fun isPositive :: "jsval \<Rightarrow> bool" where
  "isPositive (Number x) = gt_zero x"
| "isPositive _ = False"

text \<open>\<open>arguments[ i ]\<close>: reading past the end of the argument list gives \<open>undefined\<close>.\<close>

definition arg :: "jsval list \<Rightarrow> nat \<Rightarrow> jsval" where
  "arg args i = (if i < length args then args ! i else Undefined)"

section \<open>Errors\<close>

text \<open>
  Every \<open>throw\<close> of the constructor is \<open>throw new TypeError( format( template, value ) )\<close>.
  The formatter is \<open>@stdlib/string-format\<close>; a \<open>TypeError\<close> keeps its two arguments, the
  template and the value interpolated at \<open>%s\<close>. \<open>Thrown e\<close> is the error \<open>e\<close> that
  an object's conversion throws.
\<close>

datatype error = is_TypeError: TypeError string jsval | Thrown nat

definition msg_first :: string where
  "msg_first = ''invalid argument. First shape parameter must be a positive number. Value: `%s`.''"

definition msg_second :: string where
  "msg_second = ''invalid argument. Second shape parameter must be a positive number. Value: `%s`.''"

definition msg_assign :: string where
  "msg_assign = ''invalid assignment. Must be a positive number. Value: `%s`.''"

text \<open>
  The error that leaves \<open>throw new TypeError( format( template, value ) )\<close>. The argument
  of \<open>new TypeError\<close> is evaluated first: when the conversion of \<open>value\<close> throws, its
  error propagates and the \<open>TypeError\<close> is never built.
\<close>

fun throw_format :: "string \<Rightarrow> jsval \<Rightarrow> error" where
  "throw_format template (Object ws (Throws e)) = Thrown e"
| "throw_format template v = TypeError template v"

section \<open>The distribution instance\<close>

text \<open>
  An instance is the pair of closure variables \<open>alpha\<close> and \<open>beta\<close> captured by the
  accessors that \<open>defineProperty\<close> installs (lines 158 to 183). The properties are not
  configurable, so the accessors below are the only way to the variables.
\<close>

record beta_obj =
  alpha_var :: jsval
  beta_var :: jsval

text \<open>
  \<open>new Beta( ...args )\<close>: the body of \<open>Beta\<close> when \<open>this instanceof Beta\<close> (lines 145 to 184).
  The accessors are installed after the checks, so a conversion that runs during a failed
  check cannot reach the instance under construction.
\<close>

definition Beta_new :: "jsval list \<Rightarrow> error + beta_obj" where
  "Beta_new args =
     (if length args \<noteq> 0 then
        (let alpha = arg args 0; beta = arg args 1 in
         if \<not> isPositive alpha then Inl (throw_format msg_first alpha)
         else if \<not> isPositive beta then Inl (throw_format msg_second beta)
         else Inr \<lparr>alpha_var = alpha, beta_var = beta\<rparr>)
      else Inr \<lparr>alpha_var = Number (Fin 1), beta_var = Number (Fin 1)\<rparr>)"

text \<open>\<open>Beta( ...args )\<close> without \<open>new\<close>: \<open>this\<close> is not an instance (lines 139 to 144).\<close>

definition Beta_call :: "jsval list \<Rightarrow> error + beta_obj" where
  "Beta_call args =
     (if length args = 0 then Beta_new []
      else Beta_new [arg args 0, arg args 1])"

text \<open>
  One assignment made by a conversion, \<open>this.alpha = x\<close> or \<open>this.beta = x\<close> with a
  number \<open>x\<close>: the setter installs a positive \<open>x\<close> and otherwise throws into the
  conversion, leaving the variable as it was.
\<close>

fun assign :: "beta_obj \<Rightarrow> field \<times> float64 \<Rightarrow> beta_obj" where
  "assign this (AlphaField, x) = (if gt_zero x then this\<lparr>alpha_var := Number x\<rparr> else this)"
| "assign this (BetaField, x) = (if gt_zero x then this\<lparr>beta_var := Number x\<rparr> else this)"

text \<open>The instance after \<open>format\<close> has converted \<open>value\<close>: a primitive changes nothing.\<close>

fun converted :: "jsval \<Rightarrow> beta_obj \<Rightarrow> beta_obj" where
  "converted (Object ws c) this = foldl assign this ws"
| "converted v this = this"

text \<open>
  The accessors of \<open>alpha\<close> (lines 161 to 169) and of \<open>beta\<close> (lines 174 to 182). A setter
  gives the error it throws, if any, and the instance afterwards.
\<close>

definition get_alpha :: "beta_obj \<Rightarrow> jsval" where
  "get_alpha this = alpha_var this"

definition set_alpha :: "beta_obj \<Rightarrow> jsval \<Rightarrow> error option \<times> beta_obj" where
  "set_alpha this v =
     (if \<not> isPositive v then (Some (throw_format msg_assign v), converted v this)
      else (None, this\<lparr>alpha_var := v\<rparr>))"

definition get_beta :: "beta_obj \<Rightarrow> jsval" where
  "get_beta this = beta_var this"

definition set_beta :: "beta_obj \<Rightarrow> jsval \<Rightarrow> error option \<times> beta_obj" where
  "set_beta this v =
     (if \<not> isPositive v then (Some (throw_format msg_assign v), converted v this)
      else (None, this\<lparr>beta_var := v\<rparr>))"

section \<open>The numeric functions behind the instance\<close>

text \<open>
  The fourteen functions of lines 29 to 42 are separate packages
  (\<open>@stdlib/stats-base-dists-beta-*\<close>); \<open>lib/ctor.js\<close> only calls them. They are
  parameters of the model: pure functions from their arguments to a number. That is what
  they are on primitive arguments. What a kernel does with an object is decided by its own
  package, and the operations below call the methods with numbers only.
\<close>

record kernels =
  entropy :: "jsval \<Rightarrow> jsval \<Rightarrow> float64"
  kurtosis :: "jsval \<Rightarrow> jsval \<Rightarrow> float64"
  mean :: "jsval \<Rightarrow> jsval \<Rightarrow> float64"
  median :: "jsval \<Rightarrow> jsval \<Rightarrow> float64"
  mode :: "jsval \<Rightarrow> jsval \<Rightarrow> float64"
  skewness :: "jsval \<Rightarrow> jsval \<Rightarrow> float64"
  stdev :: "jsval \<Rightarrow> jsval \<Rightarrow> float64"
  variance :: "jsval \<Rightarrow> jsval \<Rightarrow> float64"
  cdf :: "jsval \<Rightarrow> jsval \<Rightarrow> jsval \<Rightarrow> float64"
  logcdf :: "jsval \<Rightarrow> jsval \<Rightarrow> jsval \<Rightarrow> float64"
  logpdf :: "jsval \<Rightarrow> jsval \<Rightarrow> jsval \<Rightarrow> float64"
  mgf :: "jsval \<Rightarrow> jsval \<Rightarrow> jsval \<Rightarrow> float64"
  pdf :: "jsval \<Rightarrow> jsval \<Rightarrow> jsval \<Rightarrow> float64"
  quantile :: "jsval \<Rightarrow> jsval \<Rightarrow> jsval \<Rightarrow> float64"

text \<open>The private evaluators (lines 55 to 112); \<open>this.alpha\<close> and \<open>this.beta\<close> go through the getters.\<close>

definition betaCDF :: "kernels \<Rightarrow> beta_obj \<Rightarrow> jsval \<Rightarrow> float64" where
  "betaCDF K this x = cdf K x (get_alpha this) (get_beta this)"

definition betaLogCDF :: "kernels \<Rightarrow> beta_obj \<Rightarrow> jsval \<Rightarrow> float64" where
  "betaLogCDF K this x = logcdf K x (get_alpha this) (get_beta this)"

definition betaLogPDF :: "kernels \<Rightarrow> beta_obj \<Rightarrow> jsval \<Rightarrow> float64" where
  "betaLogPDF K this x = logpdf K x (get_alpha this) (get_beta this)"

definition betaMGF :: "kernels \<Rightarrow> beta_obj \<Rightarrow> jsval \<Rightarrow> float64" where
  "betaMGF K this t = mgf K t (get_alpha this) (get_beta this)"

definition betaPDF :: "kernels \<Rightarrow> beta_obj \<Rightarrow> jsval \<Rightarrow> float64" where
  "betaPDF K this x = pdf K x (get_alpha this) (get_beta this)"

definition betaQuantile :: "kernels \<Rightarrow> beta_obj \<Rightarrow> jsval \<Rightarrow> float64" where
  "betaQuantile K this p = quantile K p (get_alpha this) (get_beta this)"

text \<open>The read-only accessors of the prototype (lines 201 to 329).\<close>

definition get_entropy :: "kernels \<Rightarrow> beta_obj \<Rightarrow> float64" where
  "get_entropy K this = entropy K (get_alpha this) (get_beta this)"

definition get_kurtosis :: "kernels \<Rightarrow> beta_obj \<Rightarrow> float64" where
  "get_kurtosis K this = kurtosis K (get_alpha this) (get_beta this)"

definition get_mean :: "kernels \<Rightarrow> beta_obj \<Rightarrow> float64" where
  "get_mean K this = mean K (get_alpha this) (get_beta this)"

definition get_median :: "kernels \<Rightarrow> beta_obj \<Rightarrow> float64" where
  "get_median K this = median K (get_alpha this) (get_beta this)"

definition get_mode :: "kernels \<Rightarrow> beta_obj \<Rightarrow> float64" where
  "get_mode K this = mode K (get_alpha this) (get_beta this)"

definition get_skewness :: "kernels \<Rightarrow> beta_obj \<Rightarrow> float64" where
  "get_skewness K this = skewness K (get_alpha this) (get_beta this)"

definition get_stdev :: "kernels \<Rightarrow> beta_obj \<Rightarrow> float64" where
  "get_stdev K this = stdev K (get_alpha this) (get_beta this)"

definition get_variance :: "kernels \<Rightarrow> beta_obj \<Rightarrow> float64" where
  "get_variance K this = variance K (get_alpha this) (get_beta this)"

section \<open>Operations on an instance\<close>

text \<open>
  What a holder of an instance can do with it: read or assign \<open>alpha\<close> and \<open>beta\<close>, read
  one of the eight computed properties, call one of the six methods with a number. An
  operation gives the thrown error or the value of the expression, and the instance
  afterwards.
\<close>

datatype property =
  Entropy | Kurtosis | Mean | Median | Mode | Skewness | Stdev | Variance

datatype evaluator = CDF | LogCDF | LogPDF | MGF | PDF | Quantile

datatype operation =
    GetAlpha
  | SetAlpha jsval
  | GetBeta
  | SetBeta jsval
  | Read property
  | Invoke evaluator float64

fun read_prop :: "kernels \<Rightarrow> beta_obj \<Rightarrow> property \<Rightarrow> float64" where
  "read_prop K this Entropy = get_entropy K this"
| "read_prop K this Kurtosis = get_kurtosis K this"
| "read_prop K this Mean = get_mean K this"
| "read_prop K this Median = get_median K this"
| "read_prop K this Mode = get_mode K this"
| "read_prop K this Skewness = get_skewness K this"
| "read_prop K this Stdev = get_stdev K this"
| "read_prop K this Variance = get_variance K this"

fun invoke :: "kernels \<Rightarrow> beta_obj \<Rightarrow> evaluator \<Rightarrow> jsval \<Rightarrow> float64" where
  "invoke K this CDF x = betaCDF K this x"
| "invoke K this LogCDF x = betaLogCDF K this x"
| "invoke K this LogPDF x = betaLogPDF K this x"
| "invoke K this MGF x = betaMGF K this x"
| "invoke K this PDF x = betaPDF K this x"
| "invoke K this Quantile x = betaQuantile K this x"

fun step :: "kernels \<Rightarrow> beta_obj \<Rightarrow> operation \<Rightarrow> (error + jsval) \<times> beta_obj" where
  "step K this GetAlpha = (Inr (get_alpha this), this)"
| "step K this (SetAlpha v) =
     (case set_alpha this v of (Some e, this') \<Rightarrow> (Inl e, this') | (None, this') \<Rightarrow> (Inr v, this'))"
| "step K this GetBeta = (Inr (get_beta this), this)"
| "step K this (SetBeta v) =
     (case set_beta this v of (Some e, this') \<Rightarrow> (Inl e, this') | (None, this') \<Rightarrow> (Inr v, this'))"
| "step K this (Read p) = (Inr (Number (read_prop K this p)), this)"
| "step K this (Invoke m x) = (Inr (Number (invoke K this m (Number x))), this)"

text \<open>A sequence of operations, each error caught by the caller: the instance at the end.\<close>

fun run :: "kernels \<Rightarrow> beta_obj \<Rightarrow> operation list \<Rightarrow> beta_obj" where
  "run K this [] = this"
| "run K this (x # xs) = run K (snd (step K this x)) xs"

text \<open>The invariant of the data model: both fields are numbers greater than zero.\<close>

definition positive_fields :: "beta_obj \<Rightarrow> bool" where
  "positive_fields this = (isPositive (get_alpha this) \<and> isPositive (get_beta this))"

text \<open>
  The specification's reading of a valid shape parameter, a finite positive real, and the
  values the validator accepts: those and \<open>+Infinity\<close>.
\<close>

fun positive_finite :: "jsval \<Rightarrow> bool" where
  "positive_finite (Number (Fin r)) = (0 < r)"
| "positive_finite _ = False"

definition positive_number :: "jsval \<Rightarrow> bool" where
  "positive_number v = (positive_finite v \<or> v = Number PInf)"

section \<open>The evaluators as the specification describes them\<close>

text \<open>
  The packages behind \<open>cdf\<close>, \<open>logcdf\<close>, \<open>logpdf\<close>, \<open>mgf\<close>, \<open>pdf\<close> and \<open>quantile\<close> are
  not part of the repository. What the specification says about their values at NaN and
  outside the support is written down here; everything it leaves to the numerical
  algorithm is a parameter. Comparisons are the IEEE ones: false whenever an operand is NaN.
\<close>

fun isnan :: "float64 \<Rightarrow> bool" where
  "isnan NaN = True"
| "isnan _ = False"

fun f64_lt :: "float64 \<Rightarrow> float64 \<Rightarrow> bool" where
  "f64_lt NaN _ = False"
| "f64_lt _ NaN = False"
| "f64_lt PInf _ = False"
| "f64_lt NInf NInf = False"
| "f64_lt NInf _ = True"
| "f64_lt (Fin r) PInf = True"
| "f64_lt (Fin r) NInf = False"
| "f64_lt (Fin r) (Fin s) = (r < s)"

fun f64_le :: "float64 \<Rightarrow> float64 \<Rightarrow> bool" where
  "f64_le NaN _ = False"
| "f64_le _ NaN = False"
| "f64_le NInf _ = True"
| "f64_le _ PInf = True"
| "f64_le PInf _ = False"
| "f64_le (Fin r) NInf = False"
| "f64_le (Fin r) (Fin s) = (r \<le> s)"

text \<open>
  Modelled from the spec: the logarithm of section 4.4 (\<open>logcdf = ln(cdf)\<close>), with its
  IEEE values at zero, below zero, at the infinities and at NaN; rounding is left out.
\<close>

fun f64_ln :: "float64 \<Rightarrow> float64" where
  "f64_ln NaN = NaN"
| "f64_ln PInf = PInf"
| "f64_ln NInf = NaN"
| "f64_ln (Fin r) = (if r < 0 then NaN else if r = 0 then NInf else Fin (ln r))"

text \<open>
  Modelled from the spec: the exponential of section 4.3 (\<open>pdf = exp(logpdf)\<close>), with its
  IEEE values at the infinities and at NaN; rounding and overflow are left out.
\<close>

fun f64_exp :: "float64 \<Rightarrow> float64" where
  "f64_exp NaN = NaN"
| "f64_exp PInf = PInf"
| "f64_exp NInf = Fin 0"
| "f64_exp (Fin r) = Fin (exp r)"

type_synonym numeric3 = "float64 \<Rightarrow> float64 \<Rightarrow> float64 \<Rightarrow> float64"

text \<open>
  Modelled from the spec: \<open>@stdlib/stats-base-dists-beta-cdf\<close> is missing. Section 4.4:
  the value is 0 for \<open>x <= 0\<close>, 1 for \<open>x >= 1\<close>, else the regularized incomplete beta
  function \<open>I\<close>; section 7: a NaN input gives NaN.
\<close>

definition cdf_spec :: "numeric3 \<Rightarrow> numeric3" where
  "cdf_spec I x a b =
     (if isnan x \<or> isnan a \<or> isnan b then NaN
      else if f64_le x (Fin 0) then Fin 0
      else if f64_le (Fin 1) x then Fin 1
      else I x a b)"

text \<open>
  Modelled from the spec: \<open>@stdlib/stats-base-dists-beta-logcdf\<close> is missing. Section 4.4:
  \<open>logcdf(x; a, b) = ln(cdf(x, a, b))\<close>.
\<close>

definition logcdf_spec :: "numeric3 \<Rightarrow> numeric3" where
  "logcdf_spec I x a b = f64_ln (cdf_spec I x a b)"

text \<open>
  Modelled from the spec: \<open>@stdlib/stats-base-dists-beta-logpdf\<close> is missing. Section 4.3:
  \<open>-Infinity\<close> for \<open>x\<close> outside \<open>[0,1]\<close>, NaN for a NaN parameter or input; on \<open>[0,1]\<close>
  the formula and its limits at the two ends, \<open>F\<close>.
\<close>

definition logpdf_spec :: "numeric3 \<Rightarrow> numeric3" where
  "logpdf_spec F x a b =
     (if isnan x \<or> isnan a \<or> isnan b then NaN
      else if f64_lt x (Fin 0) \<or> f64_lt (Fin 1) x then NInf
      else F x a b)"

text \<open>
  Modelled from the spec: \<open>@stdlib/stats-base-dists-beta-pdf\<close> is missing. Section 4.3:
  \<open>pdf = exp(logpdf)\<close>, with the short cut for \<open>a = 1, b = 1\<close>, where the density is 1
  on the support.
\<close>

definition pdf_spec :: "numeric3 \<Rightarrow> numeric3" where
  "pdf_spec F x a b =
     (if a = Fin 1 \<and> b = Fin 1 \<and> f64_le (Fin 0) x \<and> f64_le x (Fin 1) then Fin 1
      else f64_exp (logpdf_spec F x a b))"

text \<open>
  Modelled from the spec: \<open>@stdlib/stats-base-dists-beta-mgf\<close> is missing. Section 4.5:
  the Kummer function \<open>1F1(a; a+b; t)\<close>, here \<open>M\<close>; section 7: a NaN input gives NaN.
\<close>

definition mgf_spec :: "numeric3 \<Rightarrow> numeric3" where
  "mgf_spec M t a b = (if isnan t \<or> isnan a \<or> isnan b then NaN else M t a b)"

text \<open>
  Modelled from the spec: \<open>@stdlib/stats-base-dists-beta-quantile\<close> is missing. Section 4.6:
  NaN for \<open>p\<close> outside \<open>[0,1]\<close> and for NaN, exactly 0 at \<open>p = 0\<close> and exactly 1 at
  \<open>p = 1\<close>, else the inverse of the cdf, \<open>Q\<close>.
\<close>

definition quantile_spec :: "numeric3 \<Rightarrow> numeric3" where
  "quantile_spec Q p a b =
     (if isnan p \<or> isnan a \<or> isnan b then NaN
      else if f64_lt p (Fin 0) \<or> f64_lt (Fin 1) p then NaN
      else if p = Fin 0 then Fin 0
      else if p = Fin 1 then Fin 1
      else Q p a b)"

text \<open>The four numerical algorithms the specification names but does not fix.\<close>

record numerics =
  inc_beta :: numeric3
  log_density :: numeric3
  kummer :: numeric3
  inc_beta_inv :: numeric3

text \<open>
  The specification speaks of numbers only. On three numbers a kernel is the function
  above; on any other argument it is \<open>other\<close>, about which nothing is said.
\<close>

fun on_numbers ::
  "numeric3 \<Rightarrow> (jsval \<Rightarrow> jsval \<Rightarrow> jsval \<Rightarrow> float64) \<Rightarrow> jsval \<Rightarrow> jsval \<Rightarrow> jsval \<Rightarrow> float64" where
  "on_numbers f other (Number x) (Number a) (Number b) = f x a b"
| "on_numbers f other x a b = other x a b"

definition spec_kernels :: "numerics \<Rightarrow> kernels \<Rightarrow> kernels" where
  "spec_kernels N R = R
     \<lparr>cdf := on_numbers (cdf_spec (inc_beta N)) (cdf R),
      logcdf := on_numbers (logcdf_spec (inc_beta N)) (logcdf R),
      logpdf := on_numbers (logpdf_spec (log_density N)) (logpdf R),
      mgf := on_numbers (mgf_spec (kummer N)) (mgf R),
      pdf := on_numbers (pdf_spec (log_density N)) (pdf R),
      quantile := on_numbers (quantile_spec (inc_beta_inv N)) (quantile R)\<rparr>"

section \<open>Facts about the validator and the accessors\<close>

lemma isPositive_iff: "isPositive v = positive_number v"
proof (cases v)
  case (Number x)
  then show ?thesis by (cases x) (simp_all add: positive_number_def)
qed (simp_all add: positive_number_def)

lemma isPositive_Number: "isPositive v \<Longrightarrow> \<exists>a. v = Number a \<and> \<not> isnan a"
proof (cases v)
  case (Number x)
  assume "isPositive v"
  with Number show ?thesis by (cases x) simp_all
qed simp_all

lemma throw_format_primitive: "primitive v \<Longrightarrow> throw_format t v = TypeError t v"
  by (cases v) simp_all

lemma throw_format_Object:
  "throw_format t (Object ws c) =
     (case c of Returns \<Rightarrow> TypeError t (Object ws c) | Throws e \<Rightarrow> Thrown e)"
  by (cases c) simp_all

lemma converted_primitive: "primitive v \<Longrightarrow> converted v d = d"
  by (cases v) simp_all

lemma Beta_new_cases:
  assumes "Beta_new args = Inr d"
  shows "args = [] \<and> d = \<lparr>alpha_var = Number (Fin 1), beta_var = Number (Fin 1)\<rparr>
    \<or> args \<noteq> [] \<and> isPositive (arg args 0) \<and> isPositive (arg args 1)
        \<and> d = \<lparr>alpha_var = arg args 0, beta_var = arg args 1\<rparr>"
  using assms by (auto simp: Beta_new_def Let_def split: if_splits)

lemma Beta_new_positive: "Beta_new args = Inr d \<Longrightarrow> positive_fields d"
  by (auto simp: Beta_new_def Let_def positive_fields_def get_alpha_def get_beta_def
      split: if_splits)

lemma assign_setter:
  "assign d (AlphaField, x) = snd (set_alpha d (Number x))"
  "assign d (BetaField, x) = snd (set_beta d (Number x))"
  by (simp_all add: set_alpha_def set_beta_def)

lemma assign_positive: "positive_fields d \<Longrightarrow> positive_fields (assign d w)"
proof (cases w)
  case (Pair f x)
  assume "positive_fields d"
  with Pair show ?thesis
    by (cases f) (simp_all add: positive_fields_def get_alpha_def get_beta_def)
qed

lemma foldl_assign_positive: "positive_fields d \<Longrightarrow> positive_fields (foldl assign d ws)"
  by (induction ws arbitrary: d) (simp_all add: assign_positive)

lemma converted_positive: "positive_fields d \<Longrightarrow> positive_fields (converted v d)"
  by (cases v) (simp_all add: foldl_assign_positive)

lemma set_positive:
  assumes "positive_fields d"
  shows "positive_fields (snd (set_alpha d v))" and "positive_fields (snd (set_beta d v))"
  using assms converted_positive [OF assms, of v]
  by (simp_all add: set_alpha_def set_beta_def positive_fields_def get_alpha_def get_beta_def)

lemma step_positive: "positive_fields d \<Longrightarrow> positive_fields (snd (step K d x))"
proof (cases x)
  case (SetAlpha v)
  assume "positive_fields d"
  from set_positive(1) [OF this, of v] SetAlpha show ?thesis
    by (auto split: prod.splits option.splits)
next
  case (SetBeta v)
  assume "positive_fields d"
  from set_positive(2) [OF this, of v] SetBeta show ?thesis
    by (auto split: prod.splits option.splits)
qed simp_all

lemma run_positive: "positive_fields d \<Longrightarrow> positive_fields (run K d xs)"
  by (induction xs arbitrary: d) (simp_all add: step_positive)

lemma positive_fields_Number:
  assumes "positive_fields d"
  obtains a b where "get_alpha d = Number a" and "get_beta d = Number b"
    and "\<not> isnan a" and "\<not> isnan b"
  using assms isPositive_Number [of "get_alpha d"] isPositive_Number [of "get_beta d"]
  by (auto simp: positive_fields_def)

lemma step_set_valid:
  "isPositive v \<Longrightarrow> step K d (SetAlpha v) = (Inr v, d\<lparr>alpha_var := v\<rparr>)"
  "isPositive v \<Longrightarrow> step K d (SetBeta v) = (Inr v, d\<lparr>beta_var := v\<rparr>)"
  by (simp_all add: set_alpha_def set_beta_def)

lemma step_set_invalid:
  "\<not> isPositive v \<Longrightarrow> step K d (SetAlpha v) = (Inl (throw_format msg_assign v), converted v d)"
  "\<not> isPositive v \<Longrightarrow> step K d (SetBeta v) = (Inl (throw_format msg_assign v), converted v d)"
  by (simp_all add: set_alpha_def set_beta_def)

lemma step_set_Inr:
  "step K d (SetAlpha v) = (Inr v, d') \<Longrightarrow> isPositive v \<and> d' = d\<lparr>alpha_var := v\<rparr>"
  "step K d (SetBeta v) = (Inr v, d') \<Longrightarrow> isPositive v \<and> d' = d\<lparr>beta_var := v\<rparr>"
  by (cases "isPositive v"; simp add: set_alpha_def set_beta_def; fail)+

section \<open>Facts about the specified evaluators\<close>

lemma spec_nan:
  assumes "isnan x"
  shows "cdf_spec I x a b = NaN" and "logcdf_spec I x a b = NaN"
    and "logpdf_spec F x a b = NaN" and "pdf_spec F x a b = NaN"
    and "mgf_spec M x a b = NaN" and "quantile_spec Q x a b = NaN"
proof -
  from assms have x: "x = NaN" by (cases x) simp_all
  show "cdf_spec I x a b = NaN" and "logcdf_spec I x a b = NaN"
    and "logpdf_spec F x a b = NaN" and "pdf_spec F x a b = NaN"
    and "mgf_spec M x a b = NaN" and "quantile_spec Q x a b = NaN"
    by (simp_all add: x cdf_spec_def logcdf_spec_def logpdf_spec_def pdf_spec_def
        mgf_spec_def quantile_spec_def)
qed

lemma spec_low:
  assumes "\<not> isnan a" and "\<not> isnan b" and "f64_le x (Fin 0)"
  shows "cdf_spec I x a b = Fin 0" and "logcdf_spec I x a b = NInf"
  using assms by (cases x; simp add: cdf_spec_def logcdf_spec_def)+

lemma spec_high:
  assumes "\<not> isnan a" and "\<not> isnan b" and "f64_le (Fin 1) x"
  shows "cdf_spec I x a b = Fin 1" and "logcdf_spec I x a b = Fin 0"
  using assms by (cases x; simp add: cdf_spec_def logcdf_spec_def)+

lemma spec_outside:
  assumes "\<not> isnan a" and "\<not> isnan b" and "f64_lt x (Fin 0) \<or> f64_lt (Fin 1) x"
  shows "logpdf_spec F x a b = NInf" and "pdf_spec F x a b = Fin 0"
    and "quantile_spec Q x a b = NaN"
  using assms by (cases x; auto simp: logpdf_spec_def pdf_spec_def quantile_spec_def)+

lemma spec_methods:
  assumes "get_alpha d = Number a" and "get_beta d = Number b"
  shows "betaCDF (spec_kernels N R) d (Number x) = cdf_spec (inc_beta N) x a b"
    and "betaLogCDF (spec_kernels N R) d (Number x) = logcdf_spec (inc_beta N) x a b"
    and "betaLogPDF (spec_kernels N R) d (Number x) = logpdf_spec (log_density N) x a b"
    and "betaPDF (spec_kernels N R) d (Number x) = pdf_spec (log_density N) x a b"
    and "betaMGF (spec_kernels N R) d (Number x) = mgf_spec (kummer N) x a b"
    and "betaQuantile (spec_kernels N R) d (Number x) = quantile_spec (inc_beta_inv N) x a b"
  by (simp_all add: betaCDF_def betaLogCDF_def betaLogPDF_def betaPDF_def betaMGF_def
      betaQuantile_def spec_kernels_def assms)

section \<open>The invariant of an instance\<close>

text \<open>
  C1, as the code has it. After a successful construction, and after any sequence of
  operations on the instance, \<open>alpha\<close> and \<open>beta\<close> are numbers greater than zero.
  Construction succeeds only with the defaults or with two positive arguments. A write of a
  primitive value either installs a positive value or throws and leaves the instance as it
  was. A write of an object throws after the object's conversion has run: the assignments
  that the conversion makes are setter calls of their own, so they can change the fields,
  but only to positive numbers. Reading a field or a computed property and calling a method
  with a number leave the instance as it was.
\<close>

theorem positive_fields_invariant:
  assumes "Beta_new args = Inr d" and "s = run K d xs"
  shows "positive_fields s
    \<and> (args = [] \<and> d = \<lparr>alpha_var = Number (Fin 1), beta_var = Number (Fin 1)\<rparr>
        \<or> args \<noteq> [] \<and> isPositive (arg args 0) \<and> isPositive (arg args 1)
            \<and> d = \<lparr>alpha_var = arg args 0, beta_var = arg args 1\<rparr>)
    \<and> (\<forall>v. primitive v \<longrightarrow>
          isPositive v \<and> step K s (SetAlpha v) = (Inr v, s\<lparr>alpha_var := v\<rparr>)
          \<or> \<not> isPositive v \<and> step K s (SetAlpha v) = (Inl (TypeError msg_assign v), s))
    \<and> (\<forall>v. primitive v \<longrightarrow>
          isPositive v \<and> step K s (SetBeta v) = (Inr v, s\<lparr>beta_var := v\<rparr>)
          \<or> \<not> isPositive v \<and> step K s (SetBeta v) = (Inl (TypeError msg_assign v), s))
    \<and> (\<forall>ws c. step K s (SetAlpha (Object ws c)) =
          (Inl (case c of Returns \<Rightarrow> TypeError msg_assign (Object ws c) | Throws e \<Rightarrow> Thrown e),
           foldl assign s ws))
    \<and> (\<forall>ws c. step K s (SetBeta (Object ws c)) =
          (Inl (case c of Returns \<Rightarrow> TypeError msg_assign (Object ws c) | Throws e \<Rightarrow> Thrown e),
           foldl assign s ws))
    \<and> (\<forall>t x. assign t (AlphaField, x) = snd (step K t (SetAlpha (Number x)))
           \<and> assign t (BetaField, x) = snd (step K t (SetBeta (Number x))))
    \<and> (\<forall>v. positive_fields (snd (step K s (SetAlpha v)))
           \<and> positive_fields (snd (step K s (SetBeta v))))
    \<and> step K s GetAlpha = (Inr (get_alpha s), s)
    \<and> step K s GetBeta = (Inr (get_beta s), s)
    \<and> (\<forall>p. snd (step K s (Read p)) = s)
    \<and> (\<forall>m x. snd (step K s (Invoke m x)) = s)"
proof -
  have p: "positive_fields s"
    using assms by (simp add: Beta_new_positive run_positive)
  have 1: "\<forall>v. primitive v \<longrightarrow>
          isPositive v \<and> step K s (SetAlpha v) = (Inr v, s\<lparr>alpha_var := v\<rparr>)
          \<or> \<not> isPositive v \<and> step K s (SetAlpha v) = (Inl (TypeError msg_assign v), s)"
    by (simp add: set_alpha_def throw_format_primitive converted_primitive)
  have 2: "\<forall>v. primitive v \<longrightarrow>
          isPositive v \<and> step K s (SetBeta v) = (Inr v, s\<lparr>beta_var := v\<rparr>)
          \<or> \<not> isPositive v \<and> step K s (SetBeta v) = (Inl (TypeError msg_assign v), s)"
    by (simp add: set_beta_def throw_format_primitive converted_primitive)
  have 3: "\<forall>ws c. step K s (SetAlpha (Object ws c)) =
          (Inl (case c of Returns \<Rightarrow> TypeError msg_assign (Object ws c) | Throws e \<Rightarrow> Thrown e),
           foldl assign s ws)"
    by (simp add: set_alpha_def throw_format_Object)
  have 4: "\<forall>ws c. step K s (SetBeta (Object ws c)) =
          (Inl (case c of Returns \<Rightarrow> TypeError msg_assign (Object ws c) | Throws e \<Rightarrow> Thrown e),
           foldl assign s ws)"
    by (simp add: set_beta_def throw_format_Object)
  have 5: "\<forall>t x. assign t (AlphaField, x) = snd (step K t (SetAlpha (Number x)))
           \<and> assign t (BetaField, x) = snd (step K t (SetBeta (Number x)))"
    by (simp add: set_alpha_def set_beta_def)
  have 6: "\<forall>v. positive_fields (snd (step K s (SetAlpha v)))
           \<and> positive_fields (snd (step K s (SetBeta v)))"
    using p by (simp only: step_positive simp_thms)
  have 7: "step K s GetAlpha = (Inr (get_alpha s), s)
    \<and> step K s GetBeta = (Inr (get_beta s), s)
    \<and> (\<forall>p. snd (step K s (Read p)) = s)
    \<and> (\<forall>m x. snd (step K s (Invoke m x)) = s)"
    by simp
  from p Beta_new_cases [OF assms(1)] 1 2 3 4 5 6 7 show ?thesis
    by blast
qed

text \<open>
  The README's instance \<open>new Beta( 2.0, 4.0 )\<close>: a rejected write of \<open>alpha\<close>, an accepted
  write of \<open>beta\<close>, a method call, a write of an object whose conversion assigns 7 to
  \<open>alpha\<close> and -3 to \<open>beta\<close> and then throws, and a property read.
\<close>

theorem positive_fields_invariant_witness:
  "\<forall>K. Beta_new [Number (Fin 2), Number (Fin 4)] = Inr \<lparr>alpha_var = Number (Fin 2), beta_var = Number (Fin 4)\<rparr>
     \<and> run K \<lparr>alpha_var = Number (Fin 2), beta_var = Number (Fin 4)\<rparr>
         [SetAlpha (Number (Fin (-1))), SetBeta (Number (Fin 3)), Invoke CDF (Fin 0),
          SetAlpha (Object [(AlphaField, Fin 7), (BetaField, Fin (-3))] (Throws 1)), Read Mean]
         = \<lparr>alpha_var = Number (Fin 7), beta_var = Number (Fin 3)\<rparr>
     \<and> positive_fields \<lparr>alpha_var = Number (Fin 7), beta_var = Number (Fin 3)\<rparr>"
proof
  fix K
  have c: "Beta_new [Number (Fin 2), Number (Fin 4)] = Inr \<lparr>alpha_var = Number (Fin 2), beta_var = Number (Fin 4)\<rparr>"
    by (simp add: Beta_new_def arg_def)
  have r: "\<lparr>alpha_var = Number (Fin 7), beta_var = Number (Fin 3)\<rparr> = run K \<lparr>alpha_var = Number (Fin 2), beta_var = Number (Fin 4)\<rparr>
         [SetAlpha (Number (Fin (-1))), SetBeta (Number (Fin 3)), Invoke CDF (Fin 0),
          SetAlpha (Object [(AlphaField, Fin 7), (BetaField, Fin (-3))] (Throws 1)), Read Mean]"
    by (simp add: set_alpha_def set_beta_def)
  from positive_fields_invariant [OF c r] have "positive_fields \<lparr>alpha_var = Number (Fin 7), beta_var = Number (Fin 3)\<rparr>"
    by blast
  with c r show "Beta_new [Number (Fin 2), Number (Fin 4)] = Inr \<lparr>alpha_var = Number (Fin 2), beta_var = Number (Fin 4)\<rparr>
     \<and> run K \<lparr>alpha_var = Number (Fin 2), beta_var = Number (Fin 4)\<rparr>
         [SetAlpha (Number (Fin (-1))), SetBeta (Number (Fin 3)), Invoke CDF (Fin 0),
          SetAlpha (Object [(AlphaField, Fin 7), (BetaField, Fin (-3))] (Throws 1)), Read Mean]
         = \<lparr>alpha_var = Number (Fin 7), beta_var = Number (Fin 3)\<rparr>
     \<and> positive_fields \<lparr>alpha_var = Number (Fin 7), beta_var = Number (Fin 3)\<rparr>"
    by simp
qed

text \<open>
  The write \<open>d.alpha = obj\<close> on \<open>new Beta( 2.0, 4.0 )\<close>, where the conversion of \<open>obj\<close>
  runs \<open>d.alpha = 7\<close> and returns: the write throws the \<open>TypeError\<close>, and \<open>alpha\<close> is 7
  afterwards, not 2.
\<close>

theorem failed_write_changes_field:
  "Beta_new [Number (Fin 2), Number (Fin 4)] = Inr \<lparr>alpha_var = Number (Fin 2), beta_var = Number (Fin 4)\<rparr>
   \<and> set_alpha \<lparr>alpha_var = Number (Fin 2), beta_var = Number (Fin 4)\<rparr> (Object [(AlphaField, Fin 7)] Returns)
       = (Some (TypeError msg_assign (Object [(AlphaField, Fin 7)] Returns)), \<lparr>alpha_var = Number (Fin 7), beta_var = Number (Fin 4)\<rparr>)
   \<and> get_alpha \<lparr>alpha_var = Number (Fin 2), beta_var = Number (Fin 4)\<rparr> = Number (Fin 2)
   \<and> get_alpha \<lparr>alpha_var = Number (Fin 7), beta_var = Number (Fin 4)\<rparr> = Number (Fin 7)"
  by (simp add: Beta_new_def arg_def set_alpha_def get_alpha_def)

section \<open>Construction\<close>

text \<open>
  C2, as the code has it. When \<open>a\<close> or \<open>b\<close> is not a positive number (a value that is
  not a number, NaN, zero, a negative number or \<open>-Infinity\<close>; \<open>+Infinity\<close> is a positive
  number), \<open>new Beta( a, b )\<close> throws and creates no instance. The check of \<open>a\<close> comes
  first. When the offending value is a primitive, or an object whose conversion returns,
  the error is the \<open>TypeError\<close> whose message names the first shape parameter and carries
  \<open>a\<close>, or names the second and carries \<open>b\<close>. When it is an object whose conversion
  throws, that error is the one thrown.
\<close>

theorem Beta_new_rejects:
  assumes "\<not> positive_number a \<or> \<not> positive_number b"
  shows "(\<exists>e. Beta_new [a, b] = Inl e)
    \<and> (\<not> positive_number a \<and> primitive a \<longrightarrow> Beta_new [a, b] = Inl (TypeError msg_first a))
    \<and> (positive_number a \<and> primitive b \<longrightarrow> Beta_new [a, b] = Inl (TypeError msg_second b))
    \<and> (\<forall>ws. a = Object ws Returns \<longrightarrow> Beta_new [a, b] = Inl (TypeError msg_first a))
    \<and> (\<forall>ws e. a = Object ws (Throws e) \<longrightarrow> Beta_new [a, b] = Inl (Thrown e))
    \<and> (\<forall>ws. positive_number a \<and> b = Object ws Returns \<longrightarrow>
          Beta_new [a, b] = Inl (TypeError msg_second b))
    \<and> (\<forall>ws e. positive_number a \<and> b = Object ws (Throws e) \<longrightarrow>
          Beta_new [a, b] = Inl (Thrown e))"
proof -
  have n: "Beta_new [a, b] =
      Inl (if \<not> positive_number a then throw_format msg_first a else throw_format msg_second b)"
    using assms by (simp add: Beta_new_def arg_def isPositive_iff)
  have o: "\<not> positive_number (Object ws c)" for ws c
    by (simp add: positive_number_def)
  from n show ?thesis
    by (auto simp: throw_format_primitive o)
qed

text \<open>
  The three invalid constructions of the specification, a string as \<open>beta\<close>, and the empty
  object of the tests.
\<close>

theorem Beta_new_rejects_witness:
  "Beta_new [Number (Fin (-5)), Number (Fin 2)] = Inl (TypeError msg_first (Number (Fin (-5))))
   \<and> Beta_new [Number (Fin 0), Number (Fin 2)] = Inl (TypeError msg_first (Number (Fin 0)))
   \<and> Beta_new [Number NaN, Number (Fin 2)] = Inl (TypeError msg_first (Number NaN))
   \<and> Beta_new [Number (Fin 2), String ''5''] = Inl (TypeError msg_second (String ''5''))
   \<and> Beta_new [Object [] Returns, Number (Fin 2)] = Inl (TypeError msg_first (Object [] Returns))"
proof -
  have p: "positive_number (Number (Fin 2))"
    and n: "\<not> positive_number (Number (Fin (-5)))" "\<not> positive_number (Number (Fin 0))"
      "\<not> positive_number (Number NaN)" "\<not> positive_number (String ''5'')"
      "\<not> positive_number (Object [] Returns)"
    by (simp_all add: positive_number_def)
  from Beta_new_rejects [of "Number (Fin (-5))" "Number (Fin 2)"] n(1)
  have 1: "Beta_new [Number (Fin (-5)), Number (Fin 2)] = Inl (TypeError msg_first (Number (Fin (-5))))"
    by simp
  from Beta_new_rejects [of "Number (Fin 0)" "Number (Fin 2)"] n(2)
  have 2: "Beta_new [Number (Fin 0), Number (Fin 2)] = Inl (TypeError msg_first (Number (Fin 0)))"
    by simp
  from Beta_new_rejects [of "Number NaN" "Number (Fin 2)"] n(3)
  have 3: "Beta_new [Number NaN, Number (Fin 2)] = Inl (TypeError msg_first (Number NaN))"
    by simp
  from Beta_new_rejects [of "Number (Fin 2)" "String ''5''"] n(4) p
  have 4: "Beta_new [Number (Fin 2), String ''5''] = Inl (TypeError msg_second (String ''5''))"
    by simp
  from Beta_new_rejects [of "Object [] Returns" "Number (Fin 2)"] n(5)
  have 5: "Beta_new [Object [] Returns, Number (Fin 2)] = Inl (TypeError msg_first (Object [] Returns))"
    by simp
  from 1 2 3 4 5 show ?thesis by blast
qed

text \<open>
  \<open>+Infinity\<close> is not a positive finite number, and \<open>new Beta( Infinity, 2.0 )\<close> returns an
  instance: the validator compares with zero and nothing tests finiteness. And for an
  object whose conversion throws, the error of \<open>new Beta( obj, 2.0 )\<close> is not the
  \<open>TypeError\<close>.
\<close>

theorem Beta_new_infinity_accepted:
  "\<not> positive_finite (Number PInf)
   \<and> Beta_new [Number PInf, Number (Fin 2)]
       = Inr \<lparr>alpha_var = Number PInf, beta_var = Number (Fin 2)\<rparr>
   \<and> \<not> positive_finite (Object [] (Throws 0))
   \<and> Beta_new [Object [] (Throws 0), Number (Fin 2)] = Inl (Thrown 0)
   \<and> \<not> is_TypeError (Thrown 0)"
  by (simp add: Beta_new_def arg_def)

text \<open>
  C3, as the code has it. Constructing with exactly one argument \<open>a\<close> throws whatever
  \<open>a\<close> is, and creates no instance: \<open>beta\<close> is then \<open>undefined\<close>, so a valid \<open>a\<close>
  fails at the second parameter and an invalid \<open>a\<close> at the first. The error is the
  \<open>TypeError\<close> for every primitive \<open>a\<close> and for every object whose conversion returns;
  for an object whose conversion throws it is that error. The same holds without \<open>new\<close>.
  No argument is accepted, and so are two positive numbers.
\<close>

theorem Beta_new_one_argument:
  "(\<exists>e. Beta_new [a] = Inl e)
   \<and> (isPositive a \<longrightarrow> Beta_new [a] = Inl (TypeError msg_second Undefined))
   \<and> (\<not> isPositive a \<and> primitive a \<longrightarrow> Beta_new [a] = Inl (TypeError msg_first a))
   \<and> (\<forall>ws. a = Object ws Returns \<longrightarrow> Beta_new [a] = Inl (TypeError msg_first a))
   \<and> (\<forall>ws e. a = Object ws (Throws e) \<longrightarrow> Beta_new [a] = Inl (Thrown e))
   \<and> Beta_call [a] = Beta_new [a]
   \<and> Beta_new [Number (Fin 2)] = Inl (TypeError msg_second Undefined)
   \<and> Beta_new [] = Inr \<lparr>alpha_var = Number (Fin 1), beta_var = Number (Fin 1)\<rparr>
   \<and> (isPositive b \<and> isPositive c \<longrightarrow> Beta_new [b, c] = Inr \<lparr>alpha_var = b, beta_var = c\<rparr>)"
proof -
  have n: "Beta_new [a] =
      Inl (if isPositive a then TypeError msg_second Undefined else throw_format msg_first a)"
    by (simp add: Beta_new_def arg_def)
  have 1: "(\<exists>e. Beta_new [a] = Inl e)
   \<and> (isPositive a \<longrightarrow> Beta_new [a] = Inl (TypeError msg_second Undefined))
   \<and> (\<not> isPositive a \<and> primitive a \<longrightarrow> Beta_new [a] = Inl (TypeError msg_first a))
   \<and> (\<forall>ws. a = Object ws Returns \<longrightarrow> Beta_new [a] = Inl (TypeError msg_first a))
   \<and> (\<forall>ws e. a = Object ws (Throws e) \<longrightarrow> Beta_new [a] = Inl (Thrown e))"
    using n by (auto simp: throw_format_primitive)
  have 2: "Beta_call [a] = Beta_new [a]
   \<and> Beta_new [Number (Fin 2)] = Inl (TypeError msg_second Undefined)
   \<and> Beta_new [] = Inr \<lparr>alpha_var = Number (Fin 1), beta_var = Number (Fin 1)\<rparr>
   \<and> (isPositive b \<and> isPositive c \<longrightarrow> Beta_new [b, c] = Inr \<lparr>alpha_var = b, beta_var = c\<rparr>)"
    by (simp add: Beta_new_def Beta_call_def arg_def)
  from 1 2 show ?thesis by blast
qed

text \<open>
  The specification's \<open>Distribution(2.0)\<close>, a single invalid argument, and the accepted
  \<open>new Beta( 4.0, 12.0 )\<close> of the source's examples.
\<close>

theorem Beta_new_one_argument_witness:
  "Beta_new [Number (Fin 2)] = Inl (TypeError msg_second Undefined)
   \<and> Beta_new [Number (Fin (-5))] = Inl (TypeError msg_first (Number (Fin (-5))))
   \<and> Beta_new [Number (Fin 4), Number (Fin 12)]
       = Inr \<lparr>alpha_var = Number (Fin 4), beta_var = Number (Fin 12)\<rparr>"
  using Beta_new_one_argument [of "Number (Fin 2)" "Number (Fin 4)" "Number (Fin 12)"]
    Beta_new_one_argument [of "Number (Fin (-5))" "Number (Fin 4)" "Number (Fin 12)"]
  by simp

text \<open>
  \<open>new Beta( obj )\<close> for an object whose conversion throws: the constructor fails, but
  with the object's error and not with the \<open>TypeError\<close>.
\<close>

theorem Beta_new_one_object:
  "Beta_new [Object [] (Throws 0)] = Inl (Thrown 0) \<and> \<not> is_TypeError (Thrown 0)"
  by (simp add: Beta_new_def arg_def)

text \<open>
  C9. Constructing with no argument succeeds, and the instance has \<open>alpha = 1.0\<close> and
  \<open>beta = 1.0\<close>.
\<close>

theorem Beta_new_default:
  "Beta_new [] = Inr \<lparr>alpha_var = Number (Fin 1), beta_var = Number (Fin 1)\<rparr>
   \<and> (\<exists>d. Beta_new [] = Inr d \<and> get_alpha d = Number (Fin 1) \<and> get_beta d = Number (Fin 1))"
  by (simp add: Beta_new_def get_alpha_def get_beta_def)

text \<open>
  C10. Calling \<open>Beta\<close> without \<open>new\<close> gives what \<open>new Beta\<close> gives on the same arguments:
  the default instance for no argument, and otherwise the construction from the first two
  arguments (a missing second one is \<open>undefined\<close>), which is also all that \<open>new Beta\<close>
  itself looks at.
\<close>

theorem Beta_call_as_new:
  "Beta_call args = Beta_new args
   \<and> Beta_call [] = Inr \<lparr>alpha_var = Number (Fin 1), beta_var = Number (Fin 1)\<rparr>
   \<and> Beta_call [a] = Beta_new [a, Undefined]
   \<and> Beta_call (a # b # rest) = Beta_new [a, b]
   \<and> Beta_new (a # b # rest) = Beta_new [a, b]"
proof -
  have "Beta_call args = Beta_new args"
  proof (cases args)
    case Nil
    then show ?thesis by (simp add: Beta_call_def)
  next
    case (Cons x xs)
    then show ?thesis
      by (cases xs) (simp_all add: Beta_call_def Beta_new_def arg_def)
  qed
  then show ?thesis
    by (simp add: Beta_call_def Beta_new_def arg_def)
qed

section \<open>Writes\<close>

text \<open>
  C4, as the code has it. On an instance reached from a successful construction, assigning
  to \<open>alpha\<close> or to \<open>beta\<close> a primitive value that is not a positive number (a primitive
  that is not a number, NaN, zero, a negative number or \<open>-Infinity\<close>; \<open>+Infinity\<close> is a
  positive number) throws a \<open>TypeError\<close> carrying the value, and both fields keep their
  values. Assigning an object throws as well, after the object's conversion has run: the
  error is the \<open>TypeError\<close> when the conversion returns and the conversion's own error
  when it throws, and the instance is as the conversion's assignments left it. In every
  case both fields are positive afterwards.
\<close>

theorem invalid_write_rejected:
  assumes "Beta_new args = Inr d0" and "d = run K d0 xs" and "\<not> positive_number v"
  shows "(primitive v \<longrightarrow>
           set_alpha d v = (Some (TypeError msg_assign v), d)
         \<and> set_beta d v = (Some (TypeError msg_assign v), d)
         \<and> step K d (SetAlpha v) = (Inl (TypeError msg_assign v), d)
         \<and> step K d (SetBeta v) = (Inl (TypeError msg_assign v), d)
         \<and> get_alpha (snd (step K d (SetAlpha v))) = get_alpha d
         \<and> get_beta (snd (step K d (SetAlpha v))) = get_beta d
         \<and> get_alpha (snd (step K d (SetBeta v))) = get_alpha d
         \<and> get_beta (snd (step K d (SetBeta v))) = get_beta d)
    \<and> (\<forall>ws. v = Object ws Returns \<longrightarrow>
           step K d (SetAlpha v) = (Inl (TypeError msg_assign v), foldl assign d ws)
         \<and> step K d (SetBeta v) = (Inl (TypeError msg_assign v), foldl assign d ws))
    \<and> (\<forall>ws e. v = Object ws (Throws e) \<longrightarrow>
           step K d (SetAlpha v) = (Inl (Thrown e), foldl assign d ws)
         \<and> step K d (SetBeta v) = (Inl (Thrown e), foldl assign d ws))
    \<and> (\<exists>e. fst (step K d (SetAlpha v)) = Inl e)
    \<and> (\<exists>e. fst (step K d (SetBeta v)) = Inl e)
    \<and> positive_fields d
    \<and> positive_fields (snd (step K d (SetAlpha v)))
    \<and> positive_fields (snd (step K d (SetBeta v)))"
proof -
  have p: "positive_fields d"
    using assms(1,2) by (simp add: Beta_new_positive run_positive)
  have n: "\<not> isPositive v"
    using assms(3) by (simp add: isPositive_iff)
  note s = step_set_invalid [OF n, of K d]
  have 1: "primitive v \<longrightarrow>
           set_alpha d v = (Some (TypeError msg_assign v), d)
         \<and> set_beta d v = (Some (TypeError msg_assign v), d)
         \<and> step K d (SetAlpha v) = (Inl (TypeError msg_assign v), d)
         \<and> step K d (SetBeta v) = (Inl (TypeError msg_assign v), d)
         \<and> get_alpha (snd (step K d (SetAlpha v))) = get_alpha d
         \<and> get_beta (snd (step K d (SetAlpha v))) = get_beta d
         \<and> get_alpha (snd (step K d (SetBeta v))) = get_alpha d
         \<and> get_beta (snd (step K d (SetBeta v))) = get_beta d"
    using n by (simp add: set_alpha_def set_beta_def throw_format_primitive converted_primitive)
  have 2: "\<forall>ws. v = Object ws Returns \<longrightarrow>
           step K d (SetAlpha v) = (Inl (TypeError msg_assign v), foldl assign d ws)
         \<and> step K d (SetBeta v) = (Inl (TypeError msg_assign v), foldl assign d ws)"
    by (simp add: set_alpha_def set_beta_def)
  have 3: "\<forall>ws e. v = Object ws (Throws e) \<longrightarrow>
           step K d (SetAlpha v) = (Inl (Thrown e), foldl assign d ws)
         \<and> step K d (SetBeta v) = (Inl (Thrown e), foldl assign d ws)"
    by (simp add: set_alpha_def set_beta_def)
  have 4: "(\<exists>e. fst (step K d (SetAlpha v)) = Inl e) \<and> (\<exists>e. fst (step K d (SetBeta v)) = Inl e)"
    by (simp only: s fst_conv) blast
  have 5: "positive_fields (snd (step K d (SetAlpha v)))
    \<and> positive_fields (snd (step K d (SetBeta v)))"
    using p by (simp only: step_positive simp_thms)
  from p 1 2 3 4 5 show ?thesis by blast
qed

text \<open>
  The specification's scenario, \<open>alpha = -1\<close> on \<open>new Beta( 2.0, 4.0 )\<close>, and the empty
  object of the tests.
\<close>

theorem invalid_write_rejected_witness:
  "\<forall>K. step K \<lparr>alpha_var = Number (Fin 2), beta_var = Number (Fin 4)\<rparr> (SetAlpha (Number (Fin (-1))))
          = (Inl (TypeError msg_assign (Number (Fin (-1)))), \<lparr>alpha_var = Number (Fin 2), beta_var = Number (Fin 4)\<rparr>)
     \<and> get_alpha (snd (step K \<lparr>alpha_var = Number (Fin 2), beta_var = Number (Fin 4)\<rparr> (SetAlpha (Number (Fin (-1)))))) = Number (Fin 2)
     \<and> step K \<lparr>alpha_var = Number (Fin 2), beta_var = Number (Fin 4)\<rparr> (SetBeta (Object [] Returns))
          = (Inl (TypeError msg_assign (Object [] Returns)), \<lparr>alpha_var = Number (Fin 2), beta_var = Number (Fin 4)\<rparr>)"
proof
  fix K
  have c: "Beta_new [Number (Fin 2), Number (Fin 4)] = Inr \<lparr>alpha_var = Number (Fin 2), beta_var = Number (Fin 4)\<rparr>"
    by (simp add: Beta_new_def arg_def)
  have r: "\<lparr>alpha_var = Number (Fin 2), beta_var = Number (Fin 4)\<rparr> = run K \<lparr>alpha_var = Number (Fin 2), beta_var = Number (Fin 4)\<rparr> []"
    by simp
  have n: "\<not> positive_number (Number (Fin (-1)))" "\<not> positive_number (Object [] Returns)"
    by (simp_all add: positive_number_def)
  from invalid_write_rejected [OF c r n(1)]
  have 1: "step K \<lparr>alpha_var = Number (Fin 2), beta_var = Number (Fin 4)\<rparr> (SetAlpha (Number (Fin (-1))))
          = (Inl (TypeError msg_assign (Number (Fin (-1)))), \<lparr>alpha_var = Number (Fin 2), beta_var = Number (Fin 4)\<rparr>)
     \<and> get_alpha (snd (step K \<lparr>alpha_var = Number (Fin 2), beta_var = Number (Fin 4)\<rparr> (SetAlpha (Number (Fin (-1)))))) = get_alpha \<lparr>alpha_var = Number (Fin 2), beta_var = Number (Fin 4)\<rparr>"
    by simp
  from invalid_write_rejected [OF c r n(2)]
  have 2: "step K \<lparr>alpha_var = Number (Fin 2), beta_var = Number (Fin 4)\<rparr> (SetBeta (Object [] Returns))
          = (Inl (TypeError msg_assign (Object [] Returns)), \<lparr>alpha_var = Number (Fin 2), beta_var = Number (Fin 4)\<rparr>)"
    by simp
  from 1 2 show "step K \<lparr>alpha_var = Number (Fin 2), beta_var = Number (Fin 4)\<rparr> (SetAlpha (Number (Fin (-1))))
          = (Inl (TypeError msg_assign (Number (Fin (-1)))), \<lparr>alpha_var = Number (Fin 2), beta_var = Number (Fin 4)\<rparr>)
     \<and> get_alpha (snd (step K \<lparr>alpha_var = Number (Fin 2), beta_var = Number (Fin 4)\<rparr> (SetAlpha (Number (Fin (-1)))))) = Number (Fin 2)
     \<and> step K \<lparr>alpha_var = Number (Fin 2), beta_var = Number (Fin 4)\<rparr> (SetBeta (Object [] Returns))
          = (Inl (TypeError msg_assign (Object [] Returns)), \<lparr>alpha_var = Number (Fin 2), beta_var = Number (Fin 4)\<rparr>)"
    by (simp add: get_alpha_def)
qed

text \<open>
  \<open>+Infinity\<close> is not a positive finite number, and assigning it to \<open>alpha\<close> of the default
  instance succeeds and changes the field. And assigning to \<open>beta\<close> an object whose
  conversion throws ends with the object's error, not with the \<open>TypeError\<close>.
\<close>

theorem set_alpha_infinity_accepted:
  "\<not> positive_finite (Number PInf)
   \<and> Beta_new [] = Inr \<lparr>alpha_var = Number (Fin 1), beta_var = Number (Fin 1)\<rparr>
   \<and> set_alpha \<lparr>alpha_var = Number (Fin 1), beta_var = Number (Fin 1)\<rparr> (Number PInf) = (None, \<lparr>alpha_var = Number PInf, beta_var = Number (Fin 1)\<rparr>)
   \<and> \<not> positive_finite (Object [] (Throws 0))
   \<and> set_beta \<lparr>alpha_var = Number (Fin 1), beta_var = Number (Fin 1)\<rparr> (Object [] (Throws 0)) = (Some (Thrown 0), \<lparr>alpha_var = Number (Fin 1), beta_var = Number (Fin 1)\<rparr>)
   \<and> \<not> is_TypeError (Thrown 0)"
  by (simp add: Beta_new_def set_alpha_def set_beta_def)

section \<open>Computed properties and methods\<close>

text \<open>
  C5. Every method, called with a number, and every computed property is evaluated at each
  access from the current values of \<open>alpha\<close> and \<open>beta\<close>: \<open>d.cdf(x)\<close> returns
  \<open>cdf(x, d.alpha, d.beta)\<close>, and likewise \<open>logcdf\<close>, \<open>logpdf\<close>, \<open>pdf\<close>, \<open>mgf\<close>,
  \<open>quantile\<close>; \<open>d.mean\<close> is \<open>mean(d.alpha, d.beta)\<close>, and likewise \<open>entropy\<close>,
  \<open>kurtosis\<close>, \<open>median\<close>, \<open>mode\<close>, \<open>skewness\<close>, \<open>stdev\<close>, \<open>variance\<close>. An access
  changes nothing, and after a successful write of \<open>alpha\<close> or of \<open>beta\<close> every access is
  computed from the value written and the other field.
\<close>

theorem evaluators_delegate:
  "(step K d (Invoke CDF x) = (Inr (Number (cdf K (Number x) (get_alpha d) (get_beta d))), d)
    \<and> step K d (Invoke LogCDF x) = (Inr (Number (logcdf K (Number x) (get_alpha d) (get_beta d))), d)
    \<and> step K d (Invoke LogPDF x) = (Inr (Number (logpdf K (Number x) (get_alpha d) (get_beta d))), d)
    \<and> step K d (Invoke PDF x) = (Inr (Number (pdf K (Number x) (get_alpha d) (get_beta d))), d)
    \<and> step K d (Invoke MGF x) = (Inr (Number (mgf K (Number x) (get_alpha d) (get_beta d))), d)
    \<and> step K d (Invoke Quantile x) = (Inr (Number (quantile K (Number x) (get_alpha d) (get_beta d))), d)
    \<and> step K d (Read Mean) = (Inr (Number (mean K (get_alpha d) (get_beta d))), d)
    \<and> step K d (Read Entropy) = (Inr (Number (entropy K (get_alpha d) (get_beta d))), d)
    \<and> step K d (Read Kurtosis) = (Inr (Number (kurtosis K (get_alpha d) (get_beta d))), d)
    \<and> step K d (Read Median) = (Inr (Number (median K (get_alpha d) (get_beta d))), d)
    \<and> step K d (Read Mode) = (Inr (Number (mode K (get_alpha d) (get_beta d))), d)
    \<and> step K d (Read Skewness) = (Inr (Number (skewness K (get_alpha d) (get_beta d))), d)
    \<and> step K d (Read Stdev) = (Inr (Number (stdev K (get_alpha d) (get_beta d))), d)
    \<and> step K d (Read Variance) = (Inr (Number (variance K (get_alpha d) (get_beta d))), d))
   \<and> (\<forall>v d'. step K d (SetAlpha v) = (Inr v, d') \<longrightarrow>
         get_alpha d' = v \<and> get_beta d' = get_beta d
         \<and> step K d' (Invoke CDF x) = (Inr (Number (cdf K (Number x) v (get_beta d))), d')
         \<and> step K d' (Invoke LogCDF x) = (Inr (Number (logcdf K (Number x) v (get_beta d))), d')
         \<and> step K d' (Invoke LogPDF x) = (Inr (Number (logpdf K (Number x) v (get_beta d))), d')
         \<and> step K d' (Invoke PDF x) = (Inr (Number (pdf K (Number x) v (get_beta d))), d')
         \<and> step K d' (Invoke MGF x) = (Inr (Number (mgf K (Number x) v (get_beta d))), d')
         \<and> step K d' (Invoke Quantile x) = (Inr (Number (quantile K (Number x) v (get_beta d))), d')
         \<and> step K d' (Read Mean) = (Inr (Number (mean K v (get_beta d))), d')
         \<and> step K d' (Read Entropy) = (Inr (Number (entropy K v (get_beta d))), d')
         \<and> step K d' (Read Kurtosis) = (Inr (Number (kurtosis K v (get_beta d))), d')
         \<and> step K d' (Read Median) = (Inr (Number (median K v (get_beta d))), d')
         \<and> step K d' (Read Mode) = (Inr (Number (mode K v (get_beta d))), d')
         \<and> step K d' (Read Skewness) = (Inr (Number (skewness K v (get_beta d))), d')
         \<and> step K d' (Read Stdev) = (Inr (Number (stdev K v (get_beta d))), d')
         \<and> step K d' (Read Variance) = (Inr (Number (variance K v (get_beta d))), d'))
   \<and> (\<forall>v d'. step K d (SetBeta v) = (Inr v, d') \<longrightarrow>
         get_alpha d' = get_alpha d \<and> get_beta d' = v
         \<and> step K d' (Invoke CDF x) = (Inr (Number (cdf K (Number x) (get_alpha d) v)), d')
         \<and> step K d' (Invoke LogCDF x) = (Inr (Number (logcdf K (Number x) (get_alpha d) v)), d')
         \<and> step K d' (Invoke LogPDF x) = (Inr (Number (logpdf K (Number x) (get_alpha d) v)), d')
         \<and> step K d' (Invoke PDF x) = (Inr (Number (pdf K (Number x) (get_alpha d) v)), d')
         \<and> step K d' (Invoke MGF x) = (Inr (Number (mgf K (Number x) (get_alpha d) v)), d')
         \<and> step K d' (Invoke Quantile x) = (Inr (Number (quantile K (Number x) (get_alpha d) v)), d')
         \<and> step K d' (Read Mean) = (Inr (Number (mean K (get_alpha d) v)), d')
         \<and> step K d' (Read Entropy) = (Inr (Number (entropy K (get_alpha d) v)), d')
         \<and> step K d' (Read Kurtosis) = (Inr (Number (kurtosis K (get_alpha d) v)), d')
         \<and> step K d' (Read Median) = (Inr (Number (median K (get_alpha d) v)), d')
         \<and> step K d' (Read Mode) = (Inr (Number (mode K (get_alpha d) v)), d')
         \<and> step K d' (Read Skewness) = (Inr (Number (skewness K (get_alpha d) v)), d')
         \<and> step K d' (Read Stdev) = (Inr (Number (stdev K (get_alpha d) v)), d')
         \<and> step K d' (Read Variance) = (Inr (Number (variance K (get_alpha d) v)), d'))"
proof -
  have a: "step K d (Invoke CDF x) = (Inr (Number (cdf K (Number x) (get_alpha d) (get_beta d))), d)
    \<and> step K d (Invoke LogCDF x) = (Inr (Number (logcdf K (Number x) (get_alpha d) (get_beta d))), d)
    \<and> step K d (Invoke LogPDF x) = (Inr (Number (logpdf K (Number x) (get_alpha d) (get_beta d))), d)
    \<and> step K d (Invoke PDF x) = (Inr (Number (pdf K (Number x) (get_alpha d) (get_beta d))), d)
    \<and> step K d (Invoke MGF x) = (Inr (Number (mgf K (Number x) (get_alpha d) (get_beta d))), d)
    \<and> step K d (Invoke Quantile x) = (Inr (Number (quantile K (Number x) (get_alpha d) (get_beta d))), d)
    \<and> step K d (Read Mean) = (Inr (Number (mean K (get_alpha d) (get_beta d))), d)
    \<and> step K d (Read Entropy) = (Inr (Number (entropy K (get_alpha d) (get_beta d))), d)
    \<and> step K d (Read Kurtosis) = (Inr (Number (kurtosis K (get_alpha d) (get_beta d))), d)
    \<and> step K d (Read Median) = (Inr (Number (median K (get_alpha d) (get_beta d))), d)
    \<and> step K d (Read Mode) = (Inr (Number (mode K (get_alpha d) (get_beta d))), d)
    \<and> step K d (Read Skewness) = (Inr (Number (skewness K (get_alpha d) (get_beta d))), d)
    \<and> step K d (Read Stdev) = (Inr (Number (stdev K (get_alpha d) (get_beta d))), d)
    \<and> step K d (Read Variance) = (Inr (Number (variance K (get_alpha d) (get_beta d))), d)" for d
    by (simp add: betaCDF_def betaLogCDF_def betaLogPDF_def betaPDF_def betaMGF_def
        betaQuantile_def get_mean_def get_entropy_def get_kurtosis_def get_median_def
        get_mode_def get_skewness_def get_stdev_def get_variance_def)
  have b: "\<forall>v d'. step K d (SetAlpha v) = (Inr v, d') \<longrightarrow>
         get_alpha d' = v \<and> get_beta d' = get_beta d
         \<and> step K d' (Invoke CDF x) = (Inr (Number (cdf K (Number x) v (get_beta d))), d')
         \<and> step K d' (Invoke LogCDF x) = (Inr (Number (logcdf K (Number x) v (get_beta d))), d')
         \<and> step K d' (Invoke LogPDF x) = (Inr (Number (logpdf K (Number x) v (get_beta d))), d')
         \<and> step K d' (Invoke PDF x) = (Inr (Number (pdf K (Number x) v (get_beta d))), d')
         \<and> step K d' (Invoke MGF x) = (Inr (Number (mgf K (Number x) v (get_beta d))), d')
         \<and> step K d' (Invoke Quantile x) = (Inr (Number (quantile K (Number x) v (get_beta d))), d')
         \<and> step K d' (Read Mean) = (Inr (Number (mean K v (get_beta d))), d')
         \<and> step K d' (Read Entropy) = (Inr (Number (entropy K v (get_beta d))), d')
         \<and> step K d' (Read Kurtosis) = (Inr (Number (kurtosis K v (get_beta d))), d')
         \<and> step K d' (Read Median) = (Inr (Number (median K v (get_beta d))), d')
         \<and> step K d' (Read Mode) = (Inr (Number (mode K v (get_beta d))), d')
         \<and> step K d' (Read Skewness) = (Inr (Number (skewness K v (get_beta d))), d')
         \<and> step K d' (Read Stdev) = (Inr (Number (stdev K v (get_beta d))), d')
         \<and> step K d' (Read Variance) = (Inr (Number (variance K v (get_beta d))), d')"
  proof (intro allI impI)
    fix v d'
    assume "step K d (SetAlpha v) = (Inr v, d')"
    then have d': "d' = d\<lparr>alpha_var := v\<rparr>"
      by (simp add: step_set_Inr)
    have g: "get_alpha d' = v" "get_beta d' = get_beta d"
      by (simp_all add: d' get_alpha_def get_beta_def)
    from a [of d'] show "get_alpha d' = v \<and> get_beta d' = get_beta d
         \<and> step K d' (Invoke CDF x) = (Inr (Number (cdf K (Number x) v (get_beta d))), d')
         \<and> step K d' (Invoke LogCDF x) = (Inr (Number (logcdf K (Number x) v (get_beta d))), d')
         \<and> step K d' (Invoke LogPDF x) = (Inr (Number (logpdf K (Number x) v (get_beta d))), d')
         \<and> step K d' (Invoke PDF x) = (Inr (Number (pdf K (Number x) v (get_beta d))), d')
         \<and> step K d' (Invoke MGF x) = (Inr (Number (mgf K (Number x) v (get_beta d))), d')
         \<and> step K d' (Invoke Quantile x) = (Inr (Number (quantile K (Number x) v (get_beta d))), d')
         \<and> step K d' (Read Mean) = (Inr (Number (mean K v (get_beta d))), d')
         \<and> step K d' (Read Entropy) = (Inr (Number (entropy K v (get_beta d))), d')
         \<and> step K d' (Read Kurtosis) = (Inr (Number (kurtosis K v (get_beta d))), d')
         \<and> step K d' (Read Median) = (Inr (Number (median K v (get_beta d))), d')
         \<and> step K d' (Read Mode) = (Inr (Number (mode K v (get_beta d))), d')
         \<and> step K d' (Read Skewness) = (Inr (Number (skewness K v (get_beta d))), d')
         \<and> step K d' (Read Stdev) = (Inr (Number (stdev K v (get_beta d))), d')
         \<and> step K d' (Read Variance) = (Inr (Number (variance K v (get_beta d))), d')"
      by (simp only: g simp_thms)
  qed
  have c: "\<forall>v d'. step K d (SetBeta v) = (Inr v, d') \<longrightarrow>
         get_alpha d' = get_alpha d \<and> get_beta d' = v
         \<and> step K d' (Invoke CDF x) = (Inr (Number (cdf K (Number x) (get_alpha d) v)), d')
         \<and> step K d' (Invoke LogCDF x) = (Inr (Number (logcdf K (Number x) (get_alpha d) v)), d')
         \<and> step K d' (Invoke LogPDF x) = (Inr (Number (logpdf K (Number x) (get_alpha d) v)), d')
         \<and> step K d' (Invoke PDF x) = (Inr (Number (pdf K (Number x) (get_alpha d) v)), d')
         \<and> step K d' (Invoke MGF x) = (Inr (Number (mgf K (Number x) (get_alpha d) v)), d')
         \<and> step K d' (Invoke Quantile x) = (Inr (Number (quantile K (Number x) (get_alpha d) v)), d')
         \<and> step K d' (Read Mean) = (Inr (Number (mean K (get_alpha d) v)), d')
         \<and> step K d' (Read Entropy) = (Inr (Number (entropy K (get_alpha d) v)), d')
         \<and> step K d' (Read Kurtosis) = (Inr (Number (kurtosis K (get_alpha d) v)), d')
         \<and> step K d' (Read Median) = (Inr (Number (median K (get_alpha d) v)), d')
         \<and> step K d' (Read Mode) = (Inr (Number (mode K (get_alpha d) v)), d')
         \<and> step K d' (Read Skewness) = (Inr (Number (skewness K (get_alpha d) v)), d')
         \<and> step K d' (Read Stdev) = (Inr (Number (stdev K (get_alpha d) v)), d')
         \<and> step K d' (Read Variance) = (Inr (Number (variance K (get_alpha d) v)), d')"
  proof (intro allI impI)
    fix v d'
    assume "step K d (SetBeta v) = (Inr v, d')"
    then have d': "d' = d\<lparr>beta_var := v\<rparr>"
      by (simp add: step_set_Inr)
    have g: "get_alpha d' = get_alpha d" "get_beta d' = v"
      by (simp_all add: d' get_alpha_def get_beta_def)
    from a [of d'] show "get_alpha d' = get_alpha d \<and> get_beta d' = v
         \<and> step K d' (Invoke CDF x) = (Inr (Number (cdf K (Number x) (get_alpha d) v)), d')
         \<and> step K d' (Invoke LogCDF x) = (Inr (Number (logcdf K (Number x) (get_alpha d) v)), d')
         \<and> step K d' (Invoke LogPDF x) = (Inr (Number (logpdf K (Number x) (get_alpha d) v)), d')
         \<and> step K d' (Invoke PDF x) = (Inr (Number (pdf K (Number x) (get_alpha d) v)), d')
         \<and> step K d' (Invoke MGF x) = (Inr (Number (mgf K (Number x) (get_alpha d) v)), d')
         \<and> step K d' (Invoke Quantile x) = (Inr (Number (quantile K (Number x) (get_alpha d) v)), d')
         \<and> step K d' (Read Mean) = (Inr (Number (mean K (get_alpha d) v)), d')
         \<and> step K d' (Read Entropy) = (Inr (Number (entropy K (get_alpha d) v)), d')
         \<and> step K d' (Read Kurtosis) = (Inr (Number (kurtosis K (get_alpha d) v)), d')
         \<and> step K d' (Read Median) = (Inr (Number (median K (get_alpha d) v)), d')
         \<and> step K d' (Read Mode) = (Inr (Number (mode K (get_alpha d) v)), d')
         \<and> step K d' (Read Skewness) = (Inr (Number (skewness K (get_alpha d) v)), d')
         \<and> step K d' (Read Stdev) = (Inr (Number (stdev K (get_alpha d) v)), d')
         \<and> step K d' (Read Variance) = (Inr (Number (variance K (get_alpha d) v)), d')"
      by (simp only: g simp_thms)
  qed
  from conjI [OF a [of d] conjI [OF b c]] show ?thesis .
qed

text \<open>
  The README's \<open>beta.alpha = 3.0\<close> on \<open>new Beta( 2.0, 4.0 )\<close>: the next \<open>cdf\<close> and the
  next \<open>mean\<close> are computed from 3 and 4.
\<close>

theorem evaluators_delegate_witness:
  "\<forall>K x. step K \<lparr>alpha_var = Number (Fin 2), beta_var = Number (Fin 4)\<rparr> (SetAlpha (Number (Fin 3))) = (Inr (Number (Fin 3)), \<lparr>alpha_var = Number (Fin 3), beta_var = Number (Fin 4)\<rparr>)
     \<and> step K \<lparr>alpha_var = Number (Fin 3), beta_var = Number (Fin 4)\<rparr> (Invoke CDF x)
         = (Inr (Number (cdf K (Number x) (Number (Fin 3)) (Number (Fin 4)))), \<lparr>alpha_var = Number (Fin 3), beta_var = Number (Fin 4)\<rparr>)
     \<and> step K \<lparr>alpha_var = Number (Fin 3), beta_var = Number (Fin 4)\<rparr> (Read Mean)
         = (Inr (Number (mean K (Number (Fin 3)) (Number (Fin 4)))), \<lparr>alpha_var = Number (Fin 3), beta_var = Number (Fin 4)\<rparr>)"
proof (intro allI)
  fix K x
  have s: "step K \<lparr>alpha_var = Number (Fin 2), beta_var = Number (Fin 4)\<rparr> (SetAlpha (Number (Fin 3))) = (Inr (Number (Fin 3)), \<lparr>alpha_var = Number (Fin 3), beta_var = Number (Fin 4)\<rparr>)"
    by (simp add: set_alpha_def)
  have g: "get_beta \<lparr>alpha_var = Number (Fin 2), beta_var = Number (Fin 4)\<rparr> = Number (Fin 4)"
    by (simp add: get_beta_def)
  from evaluators_delegate [of K "\<lparr>alpha_var = Number (Fin 2), beta_var = Number (Fin 4)\<rparr>" x]
  have "\<forall>v d'. step K \<lparr>alpha_var = Number (Fin 2), beta_var = Number (Fin 4)\<rparr> (SetAlpha v) = (Inr v, d') \<longrightarrow>
         step K d' (Invoke CDF x) = (Inr (Number (cdf K (Number x) v (get_beta \<lparr>alpha_var = Number (Fin 2), beta_var = Number (Fin 4)\<rparr>))), d')
         \<and> step K d' (Read Mean) = (Inr (Number (mean K v (get_beta \<lparr>alpha_var = Number (Fin 2), beta_var = Number (Fin 4)\<rparr>))), d')"
    by blast
  with s have "step K \<lparr>alpha_var = Number (Fin 3), beta_var = Number (Fin 4)\<rparr> (Invoke CDF x)
         = (Inr (Number (cdf K (Number x) (Number (Fin 3)) (get_beta \<lparr>alpha_var = Number (Fin 2), beta_var = Number (Fin 4)\<rparr>))), \<lparr>alpha_var = Number (Fin 3), beta_var = Number (Fin 4)\<rparr>)
     \<and> step K \<lparr>alpha_var = Number (Fin 3), beta_var = Number (Fin 4)\<rparr> (Read Mean) = (Inr (Number (mean K (Number (Fin 3)) (get_beta \<lparr>alpha_var = Number (Fin 2), beta_var = Number (Fin 4)\<rparr>))), \<lparr>alpha_var = Number (Fin 3), beta_var = Number (Fin 4)\<rparr>)"
    by blast
  with s show "step K \<lparr>alpha_var = Number (Fin 2), beta_var = Number (Fin 4)\<rparr> (SetAlpha (Number (Fin 3))) = (Inr (Number (Fin 3)), \<lparr>alpha_var = Number (Fin 3), beta_var = Number (Fin 4)\<rparr>)
     \<and> step K \<lparr>alpha_var = Number (Fin 3), beta_var = Number (Fin 4)\<rparr> (Invoke CDF x)
         = (Inr (Number (cdf K (Number x) (Number (Fin 3)) (Number (Fin 4)))), \<lparr>alpha_var = Number (Fin 3), beta_var = Number (Fin 4)\<rparr>)
     \<and> step K \<lparr>alpha_var = Number (Fin 3), beta_var = Number (Fin 4)\<rparr> (Read Mean)
         = (Inr (Number (mean K (Number (Fin 3)) (Number (Fin 4)))), \<lparr>alpha_var = Number (Fin 3), beta_var = Number (Fin 4)\<rparr>)"
    by (simp only: g simp_thms)
qed



text \<open>
  C7. On an instance with valid shape parameters and for every number \<open>x\<close>, each of the six
  methods returns a number, throws nothing and leaves the instance as it was. A NaN \<open>x\<close>
  gives NaN from all six. Outside the domain the value is the conventional one: \<open>cdf\<close> is
  0 and \<open>logcdf\<close> is \<open>-Infinity\<close> for \<open>x <= 0\<close>, \<open>cdf\<close> is 1 and \<open>logcdf\<close> is 0 for
  \<open>x >= 1\<close>, and for \<open>x\<close> outside \<open>[0,1]\<close> \<open>logpdf\<close> is \<open>-Infinity\<close>, \<open>pdf\<close> is 0
  and \<open>quantile\<close> is NaN.
\<close>

theorem evaluators_total:
  assumes "positive_fields d" and "K = spec_kernels N R"
  shows "(\<forall>m. \<exists>y. step K d (Invoke m x) = (Inr (Number y), d))
    \<and> (isnan x \<longrightarrow> (\<forall>m. step K d (Invoke m x) = (Inr (Number NaN), d)))
    \<and> (f64_le x (Fin 0) \<longrightarrow>
          step K d (Invoke CDF x) = (Inr (Number (Fin 0)), d)
          \<and> step K d (Invoke LogCDF x) = (Inr (Number NInf), d))
    \<and> (f64_le (Fin 1) x \<longrightarrow>
          step K d (Invoke CDF x) = (Inr (Number (Fin 1)), d)
          \<and> step K d (Invoke LogCDF x) = (Inr (Number (Fin 0)), d))
    \<and> (f64_lt x (Fin 0) \<or> f64_lt (Fin 1) x \<longrightarrow>
          step K d (Invoke LogPDF x) = (Inr (Number NInf), d)
          \<and> step K d (Invoke PDF x) = (Inr (Number (Fin 0)), d)
          \<and> step K d (Invoke Quantile x) = (Inr (Number NaN), d))"
proof -
  from assms(1) obtain a b where ab: "get_alpha d = Number a" "get_beta d = Number b"
    and n: "\<not> isnan a" "\<not> isnan b"
    by (rule positive_fields_Number)
  note e = spec_methods [OF ab, of N R x, folded assms(2)]
  have 1: "\<forall>m. \<exists>y. step K d (Invoke m x) = (Inr (Number y), d)"
    by simp
  have 2: "isnan x \<longrightarrow> (\<forall>m. step K d (Invoke m x) = (Inr (Number NaN), d))"
  proof (intro impI allI)
    fix m
    assume "isnan x"
    then show "step K d (Invoke m x) = (Inr (Number NaN), d)"
      by (cases m) (simp_all add: e spec_nan)
  qed
  have 3: "f64_le x (Fin 0) \<longrightarrow>
          step K d (Invoke CDF x) = (Inr (Number (Fin 0)), d)
          \<and> step K d (Invoke LogCDF x) = (Inr (Number NInf), d)"
    using n by (simp add: e spec_low)
  have 4: "f64_le (Fin 1) x \<longrightarrow>
          step K d (Invoke CDF x) = (Inr (Number (Fin 1)), d)
          \<and> step K d (Invoke LogCDF x) = (Inr (Number (Fin 0)), d)"
    using n by (simp add: e spec_high)
  have 5: "f64_lt x (Fin 0) \<or> f64_lt (Fin 1) x \<longrightarrow>
          step K d (Invoke LogPDF x) = (Inr (Number NInf), d)
          \<and> step K d (Invoke PDF x) = (Inr (Number (Fin 0)), d)
          \<and> step K d (Invoke Quantile x) = (Inr (Number NaN), d)"
    using n by (simp add: e spec_outside)
  from 1 2 3 4 5 show ?thesis by blast
qed

text \<open>
  \<open>new Beta( 2.0, 4.0 )\<close> at \<open>x = -1\<close>, at \<open>x = +Infinity\<close> and at NaN.
\<close>

theorem evaluators_total_witness:
  "\<forall>N R. step (spec_kernels N R) \<lparr>alpha_var = Number (Fin 2), beta_var = Number (Fin 4)\<rparr> (Invoke CDF (Fin (-1))) = (Inr (Number (Fin 0)), \<lparr>alpha_var = Number (Fin 2), beta_var = Number (Fin 4)\<rparr>)
     \<and> step (spec_kernels N R) \<lparr>alpha_var = Number (Fin 2), beta_var = Number (Fin 4)\<rparr> (Invoke LogCDF (Fin (-1))) = (Inr (Number NInf), \<lparr>alpha_var = Number (Fin 2), beta_var = Number (Fin 4)\<rparr>)
     \<and> step (spec_kernels N R) \<lparr>alpha_var = Number (Fin 2), beta_var = Number (Fin 4)\<rparr> (Invoke LogPDF (Fin (-1))) = (Inr (Number NInf), \<lparr>alpha_var = Number (Fin 2), beta_var = Number (Fin 4)\<rparr>)
     \<and> step (spec_kernels N R) \<lparr>alpha_var = Number (Fin 2), beta_var = Number (Fin 4)\<rparr> (Invoke PDF (Fin (-1))) = (Inr (Number (Fin 0)), \<lparr>alpha_var = Number (Fin 2), beta_var = Number (Fin 4)\<rparr>)
     \<and> step (spec_kernels N R) \<lparr>alpha_var = Number (Fin 2), beta_var = Number (Fin 4)\<rparr> (Invoke Quantile (Fin (-1))) = (Inr (Number NaN), \<lparr>alpha_var = Number (Fin 2), beta_var = Number (Fin 4)\<rparr>)
     \<and> step (spec_kernels N R) \<lparr>alpha_var = Number (Fin 2), beta_var = Number (Fin 4)\<rparr> (Invoke CDF PInf) = (Inr (Number (Fin 1)), \<lparr>alpha_var = Number (Fin 2), beta_var = Number (Fin 4)\<rparr>)
     \<and> step (spec_kernels N R) \<lparr>alpha_var = Number (Fin 2), beta_var = Number (Fin 4)\<rparr> (Invoke MGF NaN) = (Inr (Number NaN), \<lparr>alpha_var = Number (Fin 2), beta_var = Number (Fin 4)\<rparr>)
     \<and> step (spec_kernels N R) \<lparr>alpha_var = Number (Fin 2), beta_var = Number (Fin 4)\<rparr> (Invoke PDF NaN) = (Inr (Number NaN), \<lparr>alpha_var = Number (Fin 2), beta_var = Number (Fin 4)\<rparr>)"
proof (intro allI)
  fix N R
  have p: "positive_fields \<lparr>alpha_var = Number (Fin 2), beta_var = Number (Fin 4)\<rparr>"
    by (simp add: positive_fields_def get_alpha_def get_beta_def)
  have l: "f64_le (Fin (-1)) (Fin 0)" "f64_lt (Fin (-1)) (Fin 0)" "f64_le (Fin 1) PInf" "isnan NaN"
    by simp_all
  from evaluators_total [OF p refl, of N R "Fin (-1)"] l(1,2)
  have 1: "step (spec_kernels N R) \<lparr>alpha_var = Number (Fin 2), beta_var = Number (Fin 4)\<rparr> (Invoke CDF (Fin (-1))) = (Inr (Number (Fin 0)), \<lparr>alpha_var = Number (Fin 2), beta_var = Number (Fin 4)\<rparr>)
     \<and> step (spec_kernels N R) \<lparr>alpha_var = Number (Fin 2), beta_var = Number (Fin 4)\<rparr> (Invoke LogCDF (Fin (-1))) = (Inr (Number NInf), \<lparr>alpha_var = Number (Fin 2), beta_var = Number (Fin 4)\<rparr>)
     \<and> step (spec_kernels N R) \<lparr>alpha_var = Number (Fin 2), beta_var = Number (Fin 4)\<rparr> (Invoke LogPDF (Fin (-1))) = (Inr (Number NInf), \<lparr>alpha_var = Number (Fin 2), beta_var = Number (Fin 4)\<rparr>)
     \<and> step (spec_kernels N R) \<lparr>alpha_var = Number (Fin 2), beta_var = Number (Fin 4)\<rparr> (Invoke PDF (Fin (-1))) = (Inr (Number (Fin 0)), \<lparr>alpha_var = Number (Fin 2), beta_var = Number (Fin 4)\<rparr>)
     \<and> step (spec_kernels N R) \<lparr>alpha_var = Number (Fin 2), beta_var = Number (Fin 4)\<rparr> (Invoke Quantile (Fin (-1))) = (Inr (Number NaN), \<lparr>alpha_var = Number (Fin 2), beta_var = Number (Fin 4)\<rparr>)"
    by blast
  from evaluators_total [OF p refl, of N R PInf] l(3)
  have 2: "step (spec_kernels N R) \<lparr>alpha_var = Number (Fin 2), beta_var = Number (Fin 4)\<rparr> (Invoke CDF PInf) = (Inr (Number (Fin 1)), \<lparr>alpha_var = Number (Fin 2), beta_var = Number (Fin 4)\<rparr>)"
    by blast
  from evaluators_total [OF p refl, of N R NaN] l(4)
  have 3: "step (spec_kernels N R) \<lparr>alpha_var = Number (Fin 2), beta_var = Number (Fin 4)\<rparr> (Invoke MGF NaN) = (Inr (Number NaN), \<lparr>alpha_var = Number (Fin 2), beta_var = Number (Fin 4)\<rparr>)
     \<and> step (spec_kernels N R) \<lparr>alpha_var = Number (Fin 2), beta_var = Number (Fin 4)\<rparr> (Invoke PDF NaN) = (Inr (Number NaN), \<lparr>alpha_var = Number (Fin 2), beta_var = Number (Fin 4)\<rparr>)"
    by blast
  from 1 2 3 show "step (spec_kernels N R) \<lparr>alpha_var = Number (Fin 2), beta_var = Number (Fin 4)\<rparr> (Invoke CDF (Fin (-1))) = (Inr (Number (Fin 0)), \<lparr>alpha_var = Number (Fin 2), beta_var = Number (Fin 4)\<rparr>)
     \<and> step (spec_kernels N R) \<lparr>alpha_var = Number (Fin 2), beta_var = Number (Fin 4)\<rparr> (Invoke LogCDF (Fin (-1))) = (Inr (Number NInf), \<lparr>alpha_var = Number (Fin 2), beta_var = Number (Fin 4)\<rparr>)
     \<and> step (spec_kernels N R) \<lparr>alpha_var = Number (Fin 2), beta_var = Number (Fin 4)\<rparr> (Invoke LogPDF (Fin (-1))) = (Inr (Number NInf), \<lparr>alpha_var = Number (Fin 2), beta_var = Number (Fin 4)\<rparr>)
     \<and> step (spec_kernels N R) \<lparr>alpha_var = Number (Fin 2), beta_var = Number (Fin 4)\<rparr> (Invoke PDF (Fin (-1))) = (Inr (Number (Fin 0)), \<lparr>alpha_var = Number (Fin 2), beta_var = Number (Fin 4)\<rparr>)
     \<and> step (spec_kernels N R) \<lparr>alpha_var = Number (Fin 2), beta_var = Number (Fin 4)\<rparr> (Invoke Quantile (Fin (-1))) = (Inr (Number NaN), \<lparr>alpha_var = Number (Fin 2), beta_var = Number (Fin 4)\<rparr>)
     \<and> step (spec_kernels N R) \<lparr>alpha_var = Number (Fin 2), beta_var = Number (Fin 4)\<rparr> (Invoke CDF PInf) = (Inr (Number (Fin 1)), \<lparr>alpha_var = Number (Fin 2), beta_var = Number (Fin 4)\<rparr>)
     \<and> step (spec_kernels N R) \<lparr>alpha_var = Number (Fin 2), beta_var = Number (Fin 4)\<rparr> (Invoke MGF NaN) = (Inr (Number NaN), \<lparr>alpha_var = Number (Fin 2), beta_var = Number (Fin 4)\<rparr>)
     \<and> step (spec_kernels N R) \<lparr>alpha_var = Number (Fin 2), beta_var = Number (Fin 4)\<rparr> (Invoke PDF NaN) = (Inr (Number NaN), \<lparr>alpha_var = Number (Fin 2), beta_var = Number (Fin 4)\<rparr>)"
    by blast
qed

end
